theory Spec2Isabelle
  imports Main "HOL-Library.AList"
begin

section \<open>sts_assume_role: values, exceptions and the module runtime\<close>

text \<open>
  The module under verification is \<^verbatim>\<open>cloud/amazon/sts_assume_role.py\<close>. It has two
  functions, \<^verbatim>\<open>assume_role_policy(client, module)\<close> and \<^verbatim>\<open>main()\<close>. Everything else it
  touches (\<^verbatim>\<open>AnsibleModule\<close>, \<^verbatim>\<open>ec2_argument_spec\<close>, \<^verbatim>\<open>get_aws_connection_info\<close>,
  \<^verbatim>\<open>boto3_conn\<close>, the STS client) is imported from other packages and is taken as a
  parameter of the model.
\<close>

subsection \<open>Python exceptions\<close>

text \<open>
  \<^verbatim>\<open>ClientError m\<close> is a \<^verbatim>\<open>botocore.exceptions.ClientError\<close> whose \<^verbatim>\<open>str()\<close> is \<open>m\<close>.
  \<^verbatim>\<open>KeyError\<close> and \<^verbatim>\<open>TypeError\<close> are what subscripting a payload raises. \<open>OtherError\<close>
  stands for any other exception a collaborator may raise; it is not a
  \<^verbatim>\<open>ClientError\<close>, so no \<^verbatim>\<open>except ClientError\<close> clause catches it.
\<close>

datatype exn = ClientError string | KeyError string | TypeError | OtherError string

subsection \<open>Python values\<close>

text \<open>
  A dict is an association list with distinct keys, read with \<open>map_of\<close> and written
  with \<open>AList.update\<close> (replace the key's value, or append the new key).
\<close>

datatype pyval =
    PNone
  | PBool bool
  | PInt int
  | PStr string
  | PDatetime int
  | PExc exn
  | PDict "(string \<times> pyval) list"

type_synonym pydict = "(string \<times> pyval) list"

text \<open>Truth value of an object, as \<^verbatim>\<open>if region:\<close> tests it.\<close>

fun truthy :: "pyval \<Rightarrow> bool" where
  "truthy PNone = False"
| "truthy (PBool b) = b"
| "truthy (PInt n) = (n \<noteq> 0)"
| "truthy (PStr s) = (s \<noteq> [])"
| "truthy (PDatetime t) = True"
| "truthy (PExc e) = True"
| "truthy (PDict kvs) = (kvs \<noteq> [])"

text \<open>\<^verbatim>\<open>d[k]\<close> for a string key: \<^verbatim>\<open>KeyError\<close> on a dict without the key, \<^verbatim>\<open>TypeError\<close>
  on a value that is not a dict.\<close>

fun getitem :: "pyval \<Rightarrow> string \<Rightarrow> exn + pyval" where
  "getitem (PDict kvs) k = (case map_of kvs k of None \<Rightarrow> Inl (KeyError k) | Some v \<Rightarrow> Inr v)"
| "getitem _ k = Inl TypeError"

text \<open>\<^verbatim>\<open>d[k1][k2]\<close>: the outer subscript is evaluated first.\<close>

definition getitem2 :: "pyval \<Rightarrow> string \<Rightarrow> string \<Rightarrow> exn + pyval" where
  "getitem2 d k1 k2 = (case getitem d k1 of Inl e \<Rightarrow> Inl e | Inr v \<Rightarrow> getitem v k2)"

subsection \<open>The module object and its parameters\<close>

record module =
  params :: pydict

text \<open>\<^verbatim>\<open>module.params.get(k)\<close>: the value stored under \<open>k\<close>, \<^verbatim>\<open>None\<close> when the key is
  missing.\<close>

definition params_get :: "module \<Rightarrow> string \<Rightarrow> pyval" where
  "params_get m k = (case map_of (params m) k of None \<Rightarrow> PNone | Some v \<Rightarrow> v)"

subsection \<open>The STS client, the events of a run and its outcome\<close>

text \<open>The client is an object with one method used here, \<^verbatim>\<open>assume_role(**kwargs)\<close>, which
  returns a payload or raises.\<close>

record sts_client =
  assume_role :: "pydict \<Rightarrow> exn + pyval"

text \<open>
  The calls a run makes to its collaborators, in order: resolving the connection
  information, constructing the client (with region, endpoint and connection keyword
  arguments), and the client's assume-role operation (with its keyword arguments).
\<close>

datatype event =
    Get_aws_connection_info
  | Boto3_conn pyval pyval pydict
  | Assume_role pydict

text \<open>
  \<^verbatim>\<open>module.exit_json(**kw)\<close> and \<^verbatim>\<open>module.fail_json(**kw)\<close> report \<open>kw\<close> and end the process
  (they raise \<^verbatim>\<open>SystemExit\<close>, which is not a \<^verbatim>\<open>ClientError\<close>): no statement after them
  runs. \<open>Raised e\<close> is an exception that nothing caught.
\<close>

datatype outcome = Exit_json pydict | Fail_json pydict | Raised exn

record run =
  result :: outcome
  trace :: "event list"

text \<open>The keyword arguments of every assume-role call of a trace.\<close>

fun assume_role_calls :: "event list \<Rightarrow> pydict list" where
  "assume_role_calls [] = []"
| "assume_role_calls (Assume_role args # es) = args # assume_role_calls es"
| "assume_role_calls (_ # es) = assume_role_calls es"

section \<open>assume_role_policy\<close>

text \<open>
  Lines 99 to 121: the keyword arguments of the call. \<^verbatim>\<open>RoleArn\<close> and
  \<^verbatim>\<open>RoleSessionName\<close> are always stored; each of the five optional parameters is
  stored under its key only when it \<^verbatim>\<open>is not None\<close>.
\<close>

definition assume_role_args :: "module \<Rightarrow> pydict" where
  "assume_role_args m =
     (let args = [(''RoleArn'', params_get m ''role_arn''),
                  (''RoleSessionName'', params_get m ''role_session_name'')];
          policy = params_get m ''policy'';
          args = (if policy \<noteq> PNone then AList.update ''Policy'' policy args else args);
          duration_seconds = params_get m ''duration_seconds'';
          args = (if duration_seconds \<noteq> PNone
                  then AList.update ''DurationSeconds'' duration_seconds args else args);
          external_id = params_get m ''external_id'';
          args = (if external_id \<noteq> PNone
                  then AList.update ''ExternalId'' external_id args else args);
          mfa_serial_number = params_get m ''mfa_serial_number'';
          args = (if mfa_serial_number \<noteq> PNone
                  then AList.update ''SerialNumber'' mfa_serial_number args else args);
          mfa_token = params_get m ''mfa_token'';
          args = (if mfa_token \<noteq> PNone
                  then AList.update ''TokenCode'' mfa_token args else args)
      in args)"

text \<open>Lines 130 to 135: \<^verbatim>\<open>sts_creds\<close>, its four subscripts evaluated in the order
  written.\<close>

definition sts_creds_of :: "pyval \<Rightarrow> exn + pyval" where
  "sts_creds_of assumed_role =
     (case getitem2 assumed_role ''Credentials'' ''AccessKeyId'' of Inl e \<Rightarrow> Inl e
      | Inr access_key \<Rightarrow>
     (case getitem2 assumed_role ''Credentials'' ''SecretAccessKey'' of Inl e \<Rightarrow> Inl e
      | Inr secret_key \<Rightarrow>
     (case getitem2 assumed_role ''Credentials'' ''SessionToken'' of Inl e \<Rightarrow> Inl e
      | Inr session_token \<Rightarrow>
     (case getitem2 assumed_role ''Credentials'' ''Expiration'' of Inl e \<Rightarrow> Inl e
      | Inr expiration \<Rightarrow>
        Inr (PDict [(''access_key'', access_key), (''secret_key'', secret_key),
                    (''session_token'', session_token), (''expiration'', expiration)])))))"

text \<open>Lines 136 to 139: \<^verbatim>\<open>sts_user\<close>.\<close>

definition sts_user_of :: "pyval \<Rightarrow> exn + pyval" where
  "sts_user_of assumed_role =
     (case getitem2 assumed_role ''AssumedRoleUser'' ''Arn'' of Inl e \<Rightarrow> Inl e
      | Inr arn \<Rightarrow>
     (case getitem2 assumed_role ''AssumedRoleUser'' ''AssumedRoleId'' of Inl e \<Rightarrow> Inl e
      | Inr assume_role_id \<Rightarrow>
        Inr (PDict [(''arn'', arn), (''assume_role_id'', assume_role_id)])))"

text \<open>
  The whole function. The client is called once with the arguments built above. A
  \<^verbatim>\<open>ClientError\<close> is caught and handed, as the exception object itself, to
  \<^verbatim>\<open>fail_json(msg=e)\<close>; any other exception propagates. After a successful call
  \<^verbatim>\<open>changed\<close> is \<^verbatim>\<open>True\<close>, the two result dicts are built and \<^verbatim>\<open>exit_json\<close> reports them.
\<close>

definition assume_role_policy :: "sts_client \<Rightarrow> module \<Rightarrow> run" where
  "assume_role_policy client m =
     (let args = assume_role_args m;
          changed = False;
          called = [Assume_role args]
      in case assume_role client args of
           Inl e \<Rightarrow>
             (case e of
                ClientError msg \<Rightarrow>
                  \<lparr>result = Fail_json [(''msg'', PExc e)], trace = called\<rparr>
              | _ \<Rightarrow> \<lparr>result = Raised e, trace = called\<rparr>)
         | Inr assumed_role \<Rightarrow>
             (let changed = True in
              case sts_creds_of assumed_role of
                Inl e \<Rightarrow> \<lparr>result = Raised e, trace = called\<rparr>
              | Inr sts_creds \<Rightarrow>
                  (case sts_user_of assumed_role of
                     Inl e \<Rightarrow> \<lparr>result = Raised e, trace = called\<rparr>
                   | Inr sts_user \<Rightarrow>
                       \<lparr>result = Exit_json [(''changed'', PBool changed),
                                            (''sts_creds'', sts_creds),
                                            (''sts_user'', sts_user)],
                        trace = called\<rparr>)))"

section \<open>main\<close>

text \<open>One entry of an argument spec, with the keys the source's entries use:
  \<^verbatim>\<open>dict(required=..., default=..., type=...)\<close>; \<open>arg_type\<close> is \<open>None\<close> where no
  \<^verbatim>\<open>type\<close> is given.\<close>

record arg_opts =
  arg_required :: bool
  arg_default :: pyval
  arg_type :: "string option"

type_synonym argspec = "(string \<times> arg_opts) list"

text \<open>Lines 146 to 154: the seven entries \<^verbatim>\<open>main\<close> adds to the shared spec.\<close>

definition role_argument_spec :: argspec where
  "role_argument_spec =
     [(''role_arn'', \<lparr>arg_required = True, arg_default = PNone, arg_type = None\<rparr>),
      (''role_session_name'', \<lparr>arg_required = True, arg_default = PNone, arg_type = None\<rparr>),
      (''duration_seconds'',
         \<lparr>arg_required = False, arg_default = PNone, arg_type = Some ''int''\<rparr>),
      (''external_id'', \<lparr>arg_required = False, arg_default = PNone, arg_type = None\<rparr>),
      (''policy'', \<lparr>arg_required = False, arg_default = PNone, arg_type = None\<rparr>),
      (''mfa_serial_number'', \<lparr>arg_required = False, arg_default = PNone, arg_type = None\<rparr>),
      (''mfa_token'', \<lparr>arg_required = False, arg_default = PNone, arg_type = None\<rparr>)]"

text \<open>\<^verbatim>\<open>d.update(e)\<close>: every entry of \<open>e\<close> stored in \<open>d\<close>.\<close>

definition dict_update :: "('k \<times> 'v) list \<Rightarrow> ('k \<times> 'v) list \<Rightarrow> ('k \<times> 'v) list" where
  "dict_update d e = fold (\<lambda>(k, v). AList.update k v) e d"

text \<open>
  What \<^verbatim>\<open>main\<close> imports, as parameters:
  \<^item> \<open>HAS_BOTO3\<close>: whether \<^verbatim>\<open>import boto3\<close> succeeded (lines 87 to 92);
  \<^item> \<open>ec2_argument_spec\<close>: the shared connection argument spec;
  \<^item> \<open>AnsibleModule\<close>: the constructor, which validates the task's arguments against
    the spec it is given and either ends the run with \<^verbatim>\<open>fail_json\<close> (\<open>Inl\<close>, the
    reported fields) or yields the module object;
  \<^item> \<open>get_aws_connection_info\<close>: region, endpoint URL and connection keyword
    arguments for the module;
  \<^item> \<open>boto3_conn\<close>: builds the client for a module, region, endpoint and connection
    keyword arguments, or raises.
\<close>

record runtime =
  HAS_BOTO3 :: bool
  ec2_argument_spec :: argspec
  AnsibleModule :: "argspec \<Rightarrow> pydict + module"
  get_aws_connection_info :: "module \<Rightarrow> pyval \<times> pyval \<times> pydict"
  boto3_conn :: "module \<Rightarrow> pyval \<Rightarrow> pyval \<Rightarrow> pydict \<Rightarrow> exn + sts_client"

text \<open>Lines 172 to 175: a \<^verbatim>\<open>ClientError\<close> escaping \<^verbatim>\<open>assume_role_policy\<close> is reported
  with \<^verbatim>\<open>fail_json(msg=e)\<close>; every other way of ending is left as it is.\<close>

definition catch_ClientError :: "run \<Rightarrow> run" where
  "catch_ClientError r =
     (case result r of
        Raised e \<Rightarrow>
          (case e of
             ClientError msg \<Rightarrow> r\<lparr>result := Fail_json [(''msg'', PExc e)]\<rparr>
           | _ \<Rightarrow> r)
      | _ \<Rightarrow> r)"

definition main :: "runtime \<Rightarrow> run" where
  "main rt =
     (let argument_spec = dict_update (ec2_argument_spec rt) role_argument_spec
      in case AnsibleModule rt argument_spec of
           Inl failed \<Rightarrow> \<lparr>result = Fail_json failed, trace = []\<rparr>
         | Inr m \<Rightarrow>
             if \<not> HAS_BOTO3 rt
             then \<lparr>result = Fail_json [(''msg'', PStr ''boto3 required for this module'')],
                   trace = []\<rparr>
             else
               (case get_aws_connection_info rt m of
                  (region, ec2_url, aws_connect_kwargs) \<Rightarrow>
                    if truthy region
                    then
                      (let conn = [Get_aws_connection_info,
                                   Boto3_conn region ec2_url aws_connect_kwargs]
                       in case boto3_conn rt m region ec2_url aws_connect_kwargs of
                            Inl e \<Rightarrow>
                              (case e of
                                 ClientError msg \<Rightarrow>
                                   \<lparr>result = Fail_json [(''msg'', PStr msg)], trace = conn\<rparr>
                               | _ \<Rightarrow> \<lparr>result = Raised e, trace = conn\<rparr>)
                          | Inr client \<Rightarrow>
                              (let r = catch_ClientError (assume_role_policy client m)
                               in r\<lparr>trace := conn @ trace r\<rparr>))
                    else
                      \<lparr>result = Fail_json [(''msg'', PStr ''region must be specified'')],
                       trace = [Get_aws_connection_info]\<rparr>))"

subsection \<open>A module runtime that enforces an argument spec\<close>

text \<open>
  \<^verbatim>\<open>AnsibleModule\<close> is not part of this repository. The examples below run \<^verbatim>\<open>main\<close> with
  a constructor that enforces what an entry of the spec declares: a required argument
  must be given, an argument of type \<^verbatim>\<open>int\<close> must be an integer, and an argument that
  is not given takes its default. The task's arguments are \<open>given\<close>.
\<close>

definition check_argument :: "pydict \<Rightarrow> string \<times> arg_opts \<Rightarrow> pydict + (string \<times> pyval)" where
  "check_argument given entry =
     (case entry of (name, opts) \<Rightarrow>
        (case map_of given name of
           None \<Rightarrow>
             if arg_required opts
             then Inl [(''msg'', PStr (''missing required arguments: '' @ name))]
             else Inr (name, arg_default opts)
         | Some v \<Rightarrow>
             if arg_type opts = Some ''int''
             then (case v of
                     PInt n \<Rightarrow> Inr (name, v)
                   | _ \<Rightarrow> Inl [(''msg'', PStr (''argument '' @ name @ '' is of invalid type''))])
             else Inr (name, v)))"

fun check_arguments :: "pydict \<Rightarrow> argspec \<Rightarrow> pydict + pydict" where
  "check_arguments given [] = Inr []"
| "check_arguments given (entry # spec) =
     (case check_argument given entry of
        Inl failed \<Rightarrow> Inl failed
      | Inr kv \<Rightarrow>
          (case check_arguments given spec of
             Inl failed \<Rightarrow> Inl failed
           | Inr kvs \<Rightarrow> Inr (kv # kvs)))"

definition checking_module :: "pydict \<Rightarrow> argspec \<Rightarrow> pydict + module" where
  "checking_module given spec =
     (case check_arguments given spec of
        Inl failed \<Rightarrow> Inl failed
      | Inr kvs \<Rightarrow> Inr \<lparr>params = kvs\<rparr>)"

subsection \<open>Example inputs\<close>

text \<open>The task of the module's own \<^verbatim>\<open>EXAMPLES\<close> (the two required arguments only),
  and three tasks built on it: without a region, with a region, and with a region and a
  duration of two hours.\<close>

definition some_role :: pydict where
  "some_role =
     [(''role_arn'', PStr ''arn:aws:iam::123456789012:role/someRole''),
      (''role_session_name'', PStr ''someRoleSession'')]"

definition no_region_task :: pydict where
  "no_region_task = some_role"

definition us_east_task :: pydict where
  "us_east_task = some_role @ [(''region'', PStr ''us-east-1'')]"

definition two_hours_task :: pydict where
  "two_hours_task =
     some_role @ [(''region'', PStr ''us-east-1''), (''duration_seconds'', PInt 7200)]"

text \<open>The module object of a task for \<open>some_role\<close> with the given region, duration and
  MFA serial number; every other optional argument is at its default \<^verbatim>\<open>None\<close>.\<close>

definition task_module :: "pyval \<Rightarrow> pyval \<Rightarrow> pyval \<Rightarrow> module" where
  "task_module region duration serial =
     \<lparr>params = [(''region'', region),
                (''role_arn'', PStr ''arn:aws:iam::123456789012:role/someRole''),
                (''role_session_name'', PStr ''someRoleSession''),
                (''duration_seconds'', duration),
                (''external_id'', PNone),
                (''policy'', PNone),
                (''mfa_serial_number'', serial),
                (''mfa_token'', PNone)]\<rparr>"

definition required_only :: module where
  "required_only = task_module (PStr ''us-east-1'') PNone PNone"

definition two_hours :: module where
  "two_hours = task_module (PStr ''us-east-1'') (PInt 7200) PNone"

definition serial_only :: module where
  "serial_only = task_module (PStr ''us-east-1'') PNone (PStr ''GAHT12345678'')"

text \<open>A success payload and the result \<^verbatim>\<open>exit_json\<close> reports for it.\<close>

definition example_credentials :: pydict where
  "example_credentials =
     [(''AccessKeyId'', PStr ''AK1''),
      (''SecretAccessKey'', PStr ''SK1''),
      (''SessionToken'', PStr ''TOK1''),
      (''Expiration'', PDatetime 1478181600)]"

definition example_user :: pydict where
  "example_user =
     [(''Arn'', PStr ''arn:aws:sts::123456789012:assumed-role/someRole/someRoleSession''),
      (''AssumedRoleId'', PStr ''AROAEXAMPLE:someRoleSession'')]"

definition example_payload :: pydict where
  "example_payload =
     [(''Credentials'', PDict example_credentials),
      (''AssumedRoleUser'', PDict example_user)]"

definition example_result :: pydict where
  "example_result =
     [(''changed'', PBool True),
      (''sts_creds'',
         PDict [(''access_key'', PStr ''AK1''),
                (''secret_key'', PStr ''SK1''),
                (''session_token'', PStr ''TOK1''),
                (''expiration'', PDatetime 1478181600)]),
      (''sts_user'',
         PDict [(''arn'',
                   PStr ''arn:aws:sts::123456789012:assumed-role/someRole/someRoleSession''),
                (''assume_role_id'', PStr ''AROAEXAMPLE:someRoleSession'')])]"

text \<open>Two clients: one that always returns the payload and one that always raises a
  \<^verbatim>\<open>ClientError\<close>.\<close>

definition granting_client :: sts_client where
  "granting_client = \<lparr>assume_role = (\<lambda>args. Inr (PDict example_payload))\<rparr>"

definition denying_client :: sts_client where
  "denying_client = \<lparr>assume_role = (\<lambda>args. Inl (ClientError ''AccessDenied''))\<rparr>"

text \<open>
  A runtime around the checking constructor: the shared spec declares \<^verbatim>\<open>region\<close>, the
  connection information is the task's \<^verbatim>\<open>region\<close> argument with no endpoint and no
  further keyword arguments, and constructing the client always yields \<open>client\<close>.
\<close>

definition example_runtime :: "bool \<Rightarrow> pydict \<Rightarrow> sts_client \<Rightarrow> runtime" where
  "example_runtime has_boto3 given client =
     \<lparr>HAS_BOTO3 = has_boto3,
      ec2_argument_spec =
        [(''region'', \<lparr>arg_required = False, arg_default = PNone, arg_type = None\<rparr>)],
      AnsibleModule = checking_module given,
      get_aws_connection_info = (\<lambda>m. (params_get m ''region'', PNone, [])),
      boto3_conn = (\<lambda>m region ec2_url aws_connect_kwargs. Inr client)\<rparr>"

section \<open>The request built by assume_role_policy\<close>

lemma args_RoleArn:
  "map_of (assume_role_args m) ''RoleArn'' = Some (params_get m ''role_arn'')"
  by (simp add: assume_role_args_def Let_def AList.update_conv')

lemma args_RoleSessionName:
  "map_of (assume_role_args m) ''RoleSessionName'' = Some (params_get m ''role_session_name'')"
  by (simp add: assume_role_args_def Let_def AList.update_conv')

lemma args_Policy:
  "map_of (assume_role_args m) ''Policy'' =
     (if params_get m ''policy'' = PNone then None else Some (params_get m ''policy''))"
  by (simp add: assume_role_args_def Let_def AList.update_conv')

lemma args_DurationSeconds:
  "map_of (assume_role_args m) ''DurationSeconds'' =
     (if params_get m ''duration_seconds'' = PNone then None
      else Some (params_get m ''duration_seconds''))"
  by (simp add: assume_role_args_def Let_def AList.update_conv')

lemma args_ExternalId:
  "map_of (assume_role_args m) ''ExternalId'' =
     (if params_get m ''external_id'' = PNone then None
      else Some (params_get m ''external_id''))"
  by (simp add: assume_role_args_def Let_def AList.update_conv')

lemma args_SerialNumber:
  "map_of (assume_role_args m) ''SerialNumber'' =
     (if params_get m ''mfa_serial_number'' = PNone then None
      else Some (params_get m ''mfa_serial_number''))"
  by (simp add: assume_role_args_def Let_def AList.update_conv')

lemma args_TokenCode:
  "map_of (assume_role_args m) ''TokenCode'' =
     (if params_get m ''mfa_token'' = PNone then None else Some (params_get m ''mfa_token''))"
  by (simp add: assume_role_args_def Let_def AList.update_conv')

text \<open>Whatever the client answers, \<^verbatim>\<open>assume_role_policy\<close> calls it once, with the
  arguments of lines 99 to 121.\<close>

lemma trace_assume_role_policy:
  "trace (assume_role_policy client m) = [Assume_role (assume_role_args m)]"
  by (simp add: assume_role_policy_def Let_def split: sum.split exn.split)

text \<open>A failure report of \<^verbatim>\<open>assume_role_policy\<close> can only come from a \<^verbatim>\<open>ClientError\<close> of
  the client.\<close>

lemma fail_json_only_from_ClientError:
  "result (assume_role_policy client m) = Fail_json kw \<Longrightarrow>
     \<exists>M. assume_role client (assume_role_args m) = Inl (ClientError M)"
  by (auto simp add: assume_role_policy_def Let_def split: sum.splits exn.splits)

text \<open>The shape of every result that \<^verbatim>\<open>exit_json\<close> reports.\<close>

lemma exit_json_shape:
  assumes "result (assume_role_policy client m) = Exit_json res"
  shows "\<exists>ak sk st ex arn rid.
           res = [(''changed'', PBool True),
                  (''sts_creds'', PDict [(''access_key'', ak), (''secret_key'', sk),
                                         (''session_token'', st), (''expiration'', ex)]),
                  (''sts_user'', PDict [(''arn'', arn), (''assume_role_id'', rid)])]"
  using assms
  by (auto simp add: assume_role_policy_def Let_def sts_creds_of_def sts_user_of_def
      split: sum.splits exn.splits)

subsection \<open>The example modules and clients\<close>

lemma task_module_params:
  "params_get (task_module r d s) ''region'' = r"
  "params_get (task_module r d s) ''role_arn'' = PStr ''arn:aws:iam::123456789012:role/someRole''"
  "params_get (task_module r d s) ''role_session_name'' = PStr ''someRoleSession''"
  "params_get (task_module r d s) ''duration_seconds'' = d"
  "params_get (task_module r d s) ''external_id'' = PNone"
  "params_get (task_module r d s) ''policy'' = PNone"
  "params_get (task_module r d s) ''mfa_serial_number'' = s"
  "params_get (task_module r d s) ''mfa_token'' = PNone"
  by (simp_all add: params_get_def task_module_def)

lemma required_only_args:
  "assume_role_args required_only =
     [(''RoleArn'', PStr ''arn:aws:iam::123456789012:role/someRole''),
      (''RoleSessionName'', PStr ''someRoleSession'')]"
  by (simp add: assume_role_args_def required_only_def task_module_params)

lemma two_hours_args:
  "assume_role_args two_hours =
     [(''RoleArn'', PStr ''arn:aws:iam::123456789012:role/someRole''),
      (''RoleSessionName'', PStr ''someRoleSession''),
      (''DurationSeconds'', PInt 7200)]"
  by (simp add: assume_role_args_def two_hours_def task_module_params)

lemma serial_only_args:
  "assume_role_args serial_only =
     [(''RoleArn'', PStr ''arn:aws:iam::123456789012:role/someRole''),
      (''RoleSessionName'', PStr ''someRoleSession''),
      (''SerialNumber'', PStr ''GAHT12345678'')]"
  by (simp add: assume_role_args_def serial_only_def task_module_params)

lemma granting_client_result:
  "result (assume_role_policy granting_client m) = Exit_json example_result"
  by (simp add: assume_role_policy_def Let_def granting_client_def example_payload_def
      example_credentials_def example_user_def example_result_def
      sts_creds_of_def sts_user_of_def getitem2_def)

lemma denying_client_result:
  "result (assume_role_policy denying_client m) =
     Fail_json [(''msg'', PExc (ClientError ''AccessDenied''))]"
  by (simp add: assume_role_policy_def Let_def denying_client_def)

section \<open>Runs of main\<close>

lemma catch_ClientError_trace: "trace (catch_ClientError r) = trace r"
  by (simp add: catch_ClientError_def split: outcome.split exn.split)

lemma catch_ClientError_Exit:
  "result (catch_ClientError r) = Exit_json res \<Longrightarrow> result r = Exit_json res"
  by (simp add: catch_ClientError_def split: outcome.splits exn.splits)

lemma catch_ClientError_Exit_same:
  "result r = Exit_json res \<Longrightarrow> result (catch_ClientError r) = Exit_json res"
  by (simp add: catch_ClientError_def)

lemma main_calls_le: "length (assume_role_calls (trace (main rt))) \<le> 1"
  by (simp add: main_def Let_def catch_ClientError_trace trace_assume_role_policy
      split: sum.split exn.split prod.split)

text \<open>A run that gets past the three configuration checks is the call
  \<^verbatim>\<open>assume_role_policy(client, module)\<close> behind the two connection events.\<close>

lemma main_reaching_client:
  assumes "AnsibleModule rt (dict_update (ec2_argument_spec rt) role_argument_spec) = Inr m"
    and "HAS_BOTO3 rt"
    and "get_aws_connection_info rt m = (region, ec2_url, aws_connect_kwargs)"
    and "truthy region"
    and "boto3_conn rt m region ec2_url aws_connect_kwargs = Inr client"
  shows "main rt =
     \<lparr>result = result (catch_ClientError (assume_role_policy client m)),
      trace = [Get_aws_connection_info, Boto3_conn region ec2_url aws_connect_kwargs,
               Assume_role (assume_role_args m)]\<rparr>"
  using assms
  by (simp add: main_def Let_def catch_ClientError_trace trace_assume_role_policy)

text \<open>Only \<^verbatim>\<open>assume_role_policy\<close> calls \<^verbatim>\<open>exit_json\<close>.\<close>

lemma main_exit_from_policy:
  assumes "result (main rt) = Exit_json res"
  shows "\<exists>client m. result (assume_role_policy client m) = Exit_json res"
  using assms
  by (auto simp add: main_def Let_def split: sum.splits exn.splits prod.splits if_splits
      dest: catch_ClientError_Exit)

subsection \<open>The argument spec and the example runtime\<close>

text \<open>Whatever the shared spec declares, the spec handed to \<^verbatim>\<open>AnsibleModule\<close> declares
  \<^verbatim>\<open>duration_seconds\<close> as an optional integer and nothing more.\<close>

lemma duration_seconds_spec:
  "map_of (dict_update shared role_argument_spec) ''duration_seconds'' =
     Some \<lparr>arg_required = False, arg_default = PNone, arg_type = Some ''int''\<rparr>"
  by (simp add: dict_update_def role_argument_spec_def AList.update_conv')

text \<open>The checking constructor accepts every integer for such an entry.\<close>

lemma check_argument_any_duration:
  "map_of given ''duration_seconds'' = Some (PInt d) \<Longrightarrow>
     check_argument given
       (''duration_seconds'',
        \<lparr>arg_required = False, arg_default = PNone, arg_type = Some ''int''\<rparr>) =
     Inr (''duration_seconds'', PInt d)"
  by (simp add: check_argument_def)

lemma example_runtime_fields:
  "HAS_BOTO3 (example_runtime b given c) = b"
  "AnsibleModule (example_runtime b given c) = checking_module given"
  "get_aws_connection_info (example_runtime b given c) m = (params_get m ''region'', PNone, [])"
  "boto3_conn (example_runtime b given c) m r u k = Inr c"
  by (simp_all add: example_runtime_def)

lemma example_argument_spec:
  "dict_update (ec2_argument_spec (example_runtime b given c)) role_argument_spec =
     (''region'', \<lparr>arg_required = False, arg_default = PNone, arg_type = None\<rparr>)
       # role_argument_spec"
  by (simp add: example_runtime_def dict_update_def role_argument_spec_def)

lemma example_modules:
  "AnsibleModule (example_runtime b two_hours_task c)
     (dict_update (ec2_argument_spec (example_runtime b two_hours_task c)) role_argument_spec) =
   Inr two_hours"
  "AnsibleModule (example_runtime b us_east_task c)
     (dict_update (ec2_argument_spec (example_runtime b us_east_task c)) role_argument_spec) =
   Inr required_only"
  "AnsibleModule (example_runtime b no_region_task c)
     (dict_update (ec2_argument_spec (example_runtime b no_region_task c)) role_argument_spec) =
   Inr (task_module PNone PNone PNone)"
  unfolding example_argument_spec example_runtime_fields
  by (simp_all add: checking_module_def role_argument_spec_def check_argument_def
      two_hours_task_def us_east_task_def no_region_task_def some_role_def
      two_hours_def required_only_def task_module_def)

lemma example_connection:
  "get_aws_connection_info (example_runtime b given c) (task_module r d s) = (r, PNone, [])"
  by (simp add: example_runtime_fields task_module_params)

section \<open>Claims about the request\<close>

text \<open>
  C2. When the five optional parameters (\<^verbatim>\<open>policy\<close>, \<^verbatim>\<open>duration_seconds\<close>,
  \<^verbatim>\<open>external_id\<close>, \<^verbatim>\<open>mfa_serial_number\<close>, \<^verbatim>\<open>mfa_token\<close>) are all \<^verbatim>\<open>None\<close>, the request
  that \<^verbatim>\<open>assume_role_policy\<close> hands to the client is the dict with exactly the two keys
  \<^verbatim>\<open>RoleArn\<close> and \<^verbatim>\<open>RoleSessionName\<close>, holding the values of \<^verbatim>\<open>role_arn\<close> and
  \<^verbatim>\<open>role_session_name\<close>, and no optional key. This holds whatever the two required
  parameters are, so in particular when they are set.
\<close>

theorem required_only_request:
  assumes "params_get m ''policy'' = PNone"
    and "params_get m ''duration_seconds'' = PNone"
    and "params_get m ''external_id'' = PNone"
    and "params_get m ''mfa_serial_number'' = PNone"
    and "params_get m ''mfa_token'' = PNone"
  shows "assume_role_calls (trace (assume_role_policy client m)) =
           [[(''RoleArn'', params_get m ''role_arn''),
             (''RoleSessionName'', params_get m ''role_session_name'')]]
         \<and> dom (map_of (assume_role_args m)) = {''RoleArn'', ''RoleSessionName''}"
proof -
  have args: "assume_role_args m =
      [(''RoleArn'', params_get m ''role_arn''),
       (''RoleSessionName'', params_get m ''role_session_name'')]"
    using assms by (simp add: assume_role_args_def)
  have "dom (map_of (assume_role_args m)) = {''RoleArn'', ''RoleSessionName''}"
    unfolding args by auto
  then show ?thesis
    by (simp add: trace_assume_role_policy args)
qed

theorem required_only_request_witness:
  "params_get required_only ''policy'' = PNone
   \<and> params_get required_only ''duration_seconds'' = PNone
   \<and> params_get required_only ''external_id'' = PNone
   \<and> params_get required_only ''mfa_serial_number'' = PNone
   \<and> params_get required_only ''mfa_token'' = PNone
   \<and> assume_role_calls (trace (assume_role_policy granting_client required_only)) =
       [[(''RoleArn'', PStr ''arn:aws:iam::123456789012:role/someRole''),
         (''RoleSessionName'', PStr ''someRoleSession'')]]"
proof -
  have p: "params_get required_only ''policy'' = PNone"
    and d: "params_get required_only ''duration_seconds'' = PNone"
    and e: "params_get required_only ''external_id'' = PNone"
    and s: "params_get required_only ''mfa_serial_number'' = PNone"
    and t: "params_get required_only ''mfa_token'' = PNone"
    by (simp_all add: required_only_def task_module_params)
  from required_only_request [OF p d e s t, of granting_client] p d e s t
  show ?thesis by (simp add: required_only_def task_module_params)
qed

text \<open>
  C3. For every input, the request handed to the client holds each optional parameter
  that is not \<^verbatim>\<open>None\<close> under its provider key (\<^verbatim>\<open>policy\<close> under \<^verbatim>\<open>Policy\<close>,
  \<^verbatim>\<open>duration_seconds\<close> under \<^verbatim>\<open>DurationSeconds\<close>, \<^verbatim>\<open>external_id\<close> under \<^verbatim>\<open>ExternalId\<close>,
  \<^verbatim>\<open>mfa_serial_number\<close> under \<^verbatim>\<open>SerialNumber\<close>, \<^verbatim>\<open>mfa_token\<close> under \<^verbatim>\<open>TokenCode\<close>) with
  exactly the given value, and has no entry at all for the key of an optional parameter
  that is \<^verbatim>\<open>None\<close> (the lookup is \<open>None\<close>: the key is absent, not bound to \<open>PNone\<close>).
\<close>

theorem optional_parameters_in_request:
  "assume_role_calls (trace (assume_role_policy client m)) = [assume_role_args m]
   \<and> map_of (assume_role_args m) ''Policy'' =
       (if params_get m ''policy'' = PNone then None else Some (params_get m ''policy''))
   \<and> map_of (assume_role_args m) ''DurationSeconds'' =
       (if params_get m ''duration_seconds'' = PNone then None
        else Some (params_get m ''duration_seconds''))
   \<and> map_of (assume_role_args m) ''ExternalId'' =
       (if params_get m ''external_id'' = PNone then None
        else Some (params_get m ''external_id''))
   \<and> map_of (assume_role_args m) ''SerialNumber'' =
       (if params_get m ''mfa_serial_number'' = PNone then None
        else Some (params_get m ''mfa_serial_number''))
   \<and> map_of (assume_role_args m) ''TokenCode'' =
       (if params_get m ''mfa_token'' = PNone then None else Some (params_get m ''mfa_token''))"
  using args_Policy [of m] args_DurationSeconds [of m] args_ExternalId [of m]
    args_SerialNumber [of m] args_TokenCode [of m]
  by (simp only: trace_assume_role_policy assume_role_calls.simps simp_thms)

theorem optional_parameters_in_request_witness:
  "assume_role_calls (trace (assume_role_policy denying_client two_hours)) =
     [assume_role_args two_hours]
   \<and> map_of (assume_role_args two_hours) ''Policy'' = None
   \<and> map_of (assume_role_args two_hours) ''DurationSeconds'' = Some (PInt 7200)
   \<and> map_of (assume_role_args two_hours) ''ExternalId'' = None
   \<and> map_of (assume_role_args two_hours) ''SerialNumber'' = None
   \<and> map_of (assume_role_args two_hours) ''TokenCode'' = None"
  using optional_parameters_in_request [of denying_client two_hours]
  by (simp add: two_hours_def task_module_params)

text \<open>
  C6. When \<^verbatim>\<open>mfa_serial_number\<close> is set and \<^verbatim>\<open>mfa_token\<close> is \<^verbatim>\<open>None\<close>, the request is still
  sent: the client is called once, with \<^verbatim>\<open>SerialNumber\<close> bound to the serial number and
  no \<^verbatim>\<open>TokenCode\<close> key. Nothing is validated locally: a failure report can only come
  from a \<^verbatim>\<open>ClientError\<close> that the client itself raised for this request.
\<close>

theorem unpaired_mfa_serial_is_sent:
  assumes "params_get m ''mfa_serial_number'' = serial"
    and "serial \<noteq> PNone"
    and "params_get m ''mfa_token'' = PNone"
  shows "assume_role_calls (trace (assume_role_policy client m)) = [assume_role_args m]
         \<and> map_of (assume_role_args m) ''SerialNumber'' = Some serial
         \<and> map_of (assume_role_args m) ''TokenCode'' = None
         \<and> (\<forall>kw. result (assume_role_policy client m) = Fail_json kw \<longrightarrow>
               (\<exists>M. assume_role client (assume_role_args m) = Inl (ClientError M)))"
  using assms fail_json_only_from_ClientError [of client m]
  by (simp add: trace_assume_role_policy args_SerialNumber args_TokenCode)

theorem unpaired_mfa_serial_is_sent_witness:
  "params_get serial_only ''mfa_serial_number'' = PStr ''GAHT12345678''
   \<and> PStr ''GAHT12345678'' \<noteq> PNone
   \<and> params_get serial_only ''mfa_token'' = PNone
   \<and> assume_role_calls (trace (assume_role_policy granting_client serial_only)) =
       [[(''RoleArn'', PStr ''arn:aws:iam::123456789012:role/someRole''),
         (''RoleSessionName'', PStr ''someRoleSession''),
         (''SerialNumber'', PStr ''GAHT12345678'')]]
   \<and> result (assume_role_policy granting_client serial_only) = Exit_json example_result"
proof -
  have s: "params_get serial_only ''mfa_serial_number'' = PStr ''GAHT12345678''"
    and t: "params_get serial_only ''mfa_token'' = PNone"
    by (simp_all add: serial_only_def task_module_params)
  have ne: "PStr ''GAHT12345678'' \<noteq> PNone" by simp
  from unpaired_mfa_serial_is_sent [OF s ne t, of granting_client] s t
  show ?thesis by (simp add: serial_only_args granting_client_result)
qed

section \<open>Claims about the outcome of assume_role_policy\<close>

text \<open>
  C4. When the client's assume-role call returns a well-formed success payload (a dict
  with a \<^verbatim>\<open>Credentials\<close> dict holding \<^verbatim>\<open>AccessKeyId\<close>, \<^verbatim>\<open>SecretAccessKey\<close>, \<^verbatim>\<open>SessionToken\<close>
  and \<^verbatim>\<open>Expiration\<close>, and an \<^verbatim>\<open>AssumedRoleUser\<close> dict holding \<^verbatim>\<open>Arn\<close> and
  \<^verbatim>\<open>AssumedRoleId\<close>), the invocation ends in \<^verbatim>\<open>exit_json\<close> with \<^verbatim>\<open>changed\<close> true,
  \<^verbatim>\<open>sts_creds\<close> whose \<^verbatim>\<open>access_key\<close>, \<^verbatim>\<open>secret_key\<close>, \<^verbatim>\<open>session_token\<close> and \<^verbatim>\<open>expiration\<close>
  are those four payload values, and \<^verbatim>\<open>sts_user\<close> whose \<^verbatim>\<open>arn\<close> and \<^verbatim>\<open>assume_role_id\<close>
  are the two identity values: every value is copied unchanged.
\<close>

theorem success_payload_mapping:
  assumes "assume_role client (assume_role_args m) = Inr (PDict payload)"
    and "map_of payload ''Credentials'' = Some (PDict creds)"
    and "map_of creds ''AccessKeyId'' = Some access_key_id"
    and "map_of creds ''SecretAccessKey'' = Some secret_access_key"
    and "map_of creds ''SessionToken'' = Some session_token"
    and "map_of creds ''Expiration'' = Some expiration"
    and "map_of payload ''AssumedRoleUser'' = Some (PDict user)"
    and "map_of user ''Arn'' = Some arn"
    and "map_of user ''AssumedRoleId'' = Some assumed_role_id"
  shows "result (assume_role_policy client m) =
           Exit_json [(''changed'', PBool True),
                      (''sts_creds'', PDict [(''access_key'', access_key_id),
                                             (''secret_key'', secret_access_key),
                                             (''session_token'', session_token),
                                             (''expiration'', expiration)]),
                      (''sts_user'', PDict [(''arn'', arn),
                                            (''assume_role_id'', assumed_role_id)])]"
  using assms
  by (simp add: assume_role_policy_def Let_def sts_creds_of_def sts_user_of_def getitem2_def)

theorem success_payload_mapping_witness:
  "assume_role granting_client (assume_role_args required_only) = Inr (PDict example_payload)
   \<and> result (assume_role_policy granting_client required_only) =
     Exit_json [(''changed'', PBool True),
                (''sts_creds'', PDict [(''access_key'', PStr ''AK1''),
                                       (''secret_key'', PStr ''SK1''),
                                       (''session_token'', PStr ''TOK1''),
                                       (''expiration'', PDatetime 1478181600)]),
                (''sts_user'',
                   PDict [(''arn'',
                             PStr ''arn:aws:sts::123456789012:assumed-role/someRole/someRoleSession''),
                          (''assume_role_id'', PStr ''AROAEXAMPLE:someRoleSession'')])]"
proof -
  have p: "assume_role granting_client (assume_role_args required_only) =
      Inr (PDict example_payload)"
    by (simp add: granting_client_def)
  have c: "map_of example_payload ''Credentials'' = Some (PDict example_credentials)"
    and u: "map_of example_payload ''AssumedRoleUser'' = Some (PDict example_user)"
    by (simp_all add: example_payload_def)
  have c1: "map_of example_credentials ''AccessKeyId'' = Some (PStr ''AK1'')"
    and c2: "map_of example_credentials ''SecretAccessKey'' = Some (PStr ''SK1'')"
    and c3: "map_of example_credentials ''SessionToken'' = Some (PStr ''TOK1'')"
    and c4: "map_of example_credentials ''Expiration'' = Some (PDatetime 1478181600)"
    by (simp_all add: example_credentials_def)
  have u1: "map_of example_user ''Arn'' =
      Some (PStr ''arn:aws:sts::123456789012:assumed-role/someRole/someRoleSession'')"
    and u2: "map_of example_user ''AssumedRoleId'' = Some (PStr ''AROAEXAMPLE:someRoleSession'')"
    by (simp_all add: example_user_def)
  from success_payload_mapping [OF p c c1 c2 c3 c4 u u1 u2] p
  show ?thesis by simp
qed

text \<open>
  What the code does with a provider fault: a \<^verbatim>\<open>ClientError\<close> of the assume-role call
  ends the invocation in \<^verbatim>\<open>fail_json\<close> after that one call. The only field reported is
  \<^verbatim>\<open>msg\<close>, so no \<^verbatim>\<open>sts_creds\<close> and no \<^verbatim>\<open>sts_user\<close> is reported, and \<^verbatim>\<open>msg\<close> is bound
  to the exception object.
\<close>

lemma client_fault_report:
  assumes "assume_role client (assume_role_args m) = Inl (ClientError M)"
  shows "assume_role_policy client m =
           \<lparr>result = Fail_json [(''msg'', PExc (ClientError M))],
            trace = [Assume_role (assume_role_args m)]\<rparr>"
  using assms by (simp add: assume_role_policy_def Let_def)

text \<open>The message of a fault is never what \<^verbatim>\<open>assume_role_policy\<close> reports as \<^verbatim>\<open>msg\<close>.\<close>

lemma client_fault_msg_never_text:
  "result (assume_role_policy client m) \<noteq> Fail_json [(''msg'', PStr M)]"
  by (simp add: assume_role_policy_def Let_def split: sum.split exn.split)

text \<open>The sibling handler of \<^verbatim>\<open>main\<close> (lines 165 to 168), for a \<^verbatim>\<open>ClientError\<close> raised
  while the client is constructed, reports the message text \<^verbatim>\<open>str(e)\<close>.\<close>

lemma client_construction_fault_report:
  assumes "AnsibleModule rt (dict_update (ec2_argument_spec rt) role_argument_spec) = Inr m"
    and "HAS_BOTO3 rt"
    and "get_aws_connection_info rt m = (region, ec2_url, aws_connect_kwargs)"
    and "truthy region"
    and "boto3_conn rt m region ec2_url aws_connect_kwargs = Inl (ClientError M)"
  shows "result (main rt) = Fail_json [(''msg'', PStr M)]"
  using assms by (simp add: main_def Let_def)

text \<open>
  C5. The claim asks that a provider fault with message \<open>M\<close> is reported as a failure
  whose message equals \<open>M\<close>. The code misses this: line 128 calls \<^verbatim>\<open>fail_json(msg=e)\<close>
  with the exception object, where the sibling handler at line 168 passes \<^verbatim>\<open>str(e)\<close>.
  For the required-only module and a client that raises \<^verbatim>\<open>ClientError\<close> with message
  \<^verbatim>\<open>AccessDenied\<close>, the client is called once and the \<^verbatim>\<open>msg\<close> handed to \<^verbatim>\<open>fail_json\<close> is
  the exception object, not the text \<^verbatim>\<open>AccessDenied\<close>. (The other half of the claim
  holds there: the report has no \<^verbatim>\<open>sts_creds\<close> and no \<^verbatim>\<open>sts_user\<close> field.)
\<close>

theorem provider_fault_msg_is_exception_object:
  "assume_role denying_client (assume_role_args required_only) =
     Inl (ClientError ''AccessDenied'')
   \<and> assume_role_policy denying_client required_only =
       \<lparr>result = Fail_json [(''msg'', PExc (ClientError ''AccessDenied''))],
        trace = [Assume_role (assume_role_args required_only)]\<rparr>
   \<and> result (assume_role_policy denying_client required_only) \<noteq>
       Fail_json [(''msg'', PStr ''AccessDenied'')]
   \<and> map_of [(''msg'', PExc (ClientError ''AccessDenied''))] ''sts_creds'' = None
   \<and> map_of [(''msg'', PExc (ClientError ''AccessDenied''))] ''sts_user'' = None"
proof -
  have h: "assume_role denying_client (assume_role_args required_only) =
      Inl (ClientError ''AccessDenied'')"
    by (simp add: denying_client_def)
  from h client_fault_report [OF h]
    client_fault_msg_never_text [of denying_client required_only "''AccessDenied''"]
  show ?thesis by simp
qed

section \<open>Claims about main\<close>

text \<open>
  C9. When \<^verbatim>\<open>boto3\<close> is not importable, the run makes no call at all to its
  collaborators: no connection information is resolved, no client is constructed and
  no assume-role call is attempted. Once the module object has been built, the run
  fails with the message \<^verbatim>\<open>boto3 required for this module\<close>.
\<close>

theorem boto3_missing_fails_first:
  assumes "\<not> HAS_BOTO3 rt"
  shows "trace (main rt) = []
         \<and> (\<forall>m. AnsibleModule rt (dict_update (ec2_argument_spec rt) role_argument_spec) = Inr m
               \<longrightarrow> result (main rt) =
                     Fail_json [(''msg'', PStr ''boto3 required for this module'')])"
  using assms by (simp add: main_def split: sum.split)

theorem boto3_missing_fails_first_witness:
  "\<not> HAS_BOTO3 (example_runtime False us_east_task granting_client)
   \<and> main (example_runtime False us_east_task granting_client) =
       \<lparr>result = Fail_json [(''msg'', PStr ''boto3 required for this module'')],
        trace = []\<rparr>"
proof -
  let ?rt = "example_runtime False us_east_task granting_client"
  have h: "\<not> HAS_BOTO3 ?rt"
    by (simp add: example_runtime_fields)
  from boto3_missing_fails_first [OF h] example_modules(2) [of False granting_client]
  have "trace (main ?rt) = []"
    and "result (main ?rt) = Fail_json [(''msg'', PStr ''boto3 required for this module'')]"
    by blast+
  with h show ?thesis by simp
qed

text \<open>
  C8. When no region is established (the region that the connection information gives
  for the module is \<^verbatim>\<open>None\<close> or empty), the client's assume-role operation is never
  attempted. The run that gets as far as resolving the region (\<^verbatim>\<open>boto3\<close> is importable)
  fails at once with the message \<^verbatim>\<open>region must be specified\<close>: the only call made is
  the resolution itself, and no client is constructed.
\<close>

theorem region_missing_fails_before_call:
  assumes "AnsibleModule rt (dict_update (ec2_argument_spec rt) role_argument_spec) = Inr m"
    and "get_aws_connection_info rt m = (region, ec2_url, aws_connect_kwargs)"
    and "\<not> truthy region"
  shows "assume_role_calls (trace (main rt)) = []
         \<and> (HAS_BOTO3 rt \<longrightarrow>
               main rt =
                 \<lparr>result = Fail_json [(''msg'', PStr ''region must be specified'')],
                  trace = [Get_aws_connection_info]\<rparr>)"
  using assms by (simp add: main_def)

theorem region_missing_fails_before_call_witness:
  "main (example_runtime True no_region_task granting_client) =
     \<lparr>result = Fail_json [(''msg'', PStr ''region must be specified'')],
      trace = [Get_aws_connection_info]\<rparr>
   \<and> assume_role_calls (trace (main (example_runtime True no_region_task granting_client))) = []"
proof -
  let ?rt = "example_runtime True no_region_task granting_client"
  have b: "HAS_BOTO3 ?rt"
    by (simp add: example_runtime_fields)
  have g: "get_aws_connection_info ?rt (task_module PNone PNone PNone) = (PNone, PNone, [])"
    by (rule example_connection)
  have r: "\<not> truthy PNone" by simp
  from region_missing_fails_before_call [OF example_modules(3) g r] b
  show ?thesis by blast
qed

text \<open>
  C7. In every run the client's assume-role operation is invoked at most once. It is
  invoked exactly once, with the request of \<^verbatim>\<open>assume_role_policy\<close>, when no
  configuration error ends the run first, that is when the module object is built,
  \<^verbatim>\<open>boto3\<close> is importable, a region is established and the client is constructed;
  this holds whether the call succeeds or fails, so there is no retry.
\<close>

theorem assume_role_called_at_most_once:
  "length (assume_role_calls (trace (main rt))) \<le> 1
   \<and> (\<forall>m region ec2_url aws_connect_kwargs client.
         AnsibleModule rt (dict_update (ec2_argument_spec rt) role_argument_spec) = Inr m
         \<and> HAS_BOTO3 rt
         \<and> get_aws_connection_info rt m = (region, ec2_url, aws_connect_kwargs)
         \<and> truthy region
         \<and> boto3_conn rt m region ec2_url aws_connect_kwargs = Inr client
         \<longrightarrow> assume_role_calls (trace (main rt)) = [assume_role_args m])"
  using main_calls_le [of rt] by (auto simp add: main_reaching_client)

theorem assume_role_called_at_most_once_witness:
  "assume_role_calls (trace (main (example_runtime True us_east_task denying_client))) =
     [[(''RoleArn'', PStr ''arn:aws:iam::123456789012:role/someRole''),
       (''RoleSessionName'', PStr ''someRoleSession'')]]
   \<and> result (main (example_runtime True us_east_task denying_client)) =
       Fail_json [(''msg'', PExc (ClientError ''AccessDenied''))]"
proof -
  let ?rt = "example_runtime True us_east_task denying_client"
  have b: "HAS_BOTO3 ?rt"
    by (simp add: example_runtime_fields)
  have g: "get_aws_connection_info ?rt required_only = (PStr ''us-east-1'', PNone, [])"
    unfolding required_only_def by (rule example_connection)
  have r: "truthy (PStr ''us-east-1'')" by simp
  have c: "boto3_conn ?rt required_only (PStr ''us-east-1'') PNone [] = Inr denying_client"
    by (simp add: example_runtime_fields)
  from assume_role_called_at_most_once [of ?rt] example_modules(2) [of True denying_client]
    b g r c
  have "assume_role_calls (trace (main ?rt)) = [assume_role_args required_only]" by blast
  moreover have "result (main ?rt) = Fail_json [(''msg'', PExc (ClientError ''AccessDenied''))]"
    unfolding main_reaching_client [OF example_modules(2) b g r c]
    by (simp add: catch_ClientError_def denying_client_result)
  ultimately show ?thesis by (simp only: required_only_args simp_thms)
qed

text \<open>
  C1, as stated, fails. A task with \<^verbatim>\<open>duration_seconds\<close> set to 7200, outside 900 to
  3600, passes the argument check (the spec asks for an integer only) and reaches the
  client: the assume-role operation is invoked, with \<^verbatim>\<open>DurationSeconds\<close> 7200.
\<close>

theorem duration_7200_reaches_client:
  "(7200::int) \<notin> {900..3600}
   \<and> AnsibleModule (example_runtime True two_hours_task granting_client)
       (dict_update (ec2_argument_spec (example_runtime True two_hours_task granting_client))
          role_argument_spec) = Inr two_hours
   \<and> params_get two_hours ''duration_seconds'' = PInt 7200
   \<and> assume_role_calls (trace (main (example_runtime True two_hours_task granting_client))) =
       [[(''RoleArn'', PStr ''arn:aws:iam::123456789012:role/someRole''),
         (''RoleSessionName'', PStr ''someRoleSession''),
         (''DurationSeconds'', PInt 7200)]]
   \<and> result (main (example_runtime True two_hours_task granting_client)) =
       Exit_json example_result"
proof -
  let ?rt = "example_runtime True two_hours_task granting_client"
  have b: "HAS_BOTO3 ?rt"
    by (simp add: example_runtime_fields)
  have g: "get_aws_connection_info ?rt two_hours = (PStr ''us-east-1'', PNone, [])"
    unfolding two_hours_def by (rule example_connection)
  have r: "truthy (PStr ''us-east-1'')" by simp
  have c: "boto3_conn ?rt two_hours (PStr ''us-east-1'') PNone [] = Inr granting_client"
    by (simp add: example_runtime_fields)
  have d: "params_get two_hours ''duration_seconds'' = PInt 7200"
    by (simp add: two_hours_def task_module_params)
  have "main ?rt =
      \<lparr>result = Exit_json example_result,
       trace = [Get_aws_connection_info, Boto3_conn (PStr ''us-east-1'') PNone [],
                Assume_role (assume_role_args two_hours)]\<rparr>"
    by (simp add: main_reaching_client [OF example_modules(1) b g r c]
        catch_ClientError_Exit_same granting_client_result)
  then show ?thesis
    by (simp add: two_hours_args d example_modules(1))
qed

text \<open>
  C1, amended. A \<^verbatim>\<open>duration_seconds\<close> that is an integer \<open>d\<close> is not checked against any
  range, so a value outside 900 to 3600 is not rejected locally. The spec handed to
  \<^verbatim>\<open>AnsibleModule\<close> declares the argument as an optional integer only, and once the module
  object is built with \<^verbatim>\<open>duration_seconds\<close> \<open>d\<close>, \<^verbatim>\<open>boto3\<close> is importable, a region is
  established and the client is constructed, the client's assume-role operation is
  invoked exactly once, with \<^verbatim>\<open>DurationSeconds\<close> bound to \<open>d\<close>.
\<close>

theorem duration_is_passed_unchecked:
  assumes "AnsibleModule rt (dict_update (ec2_argument_spec rt) role_argument_spec) = Inr m"
    and "HAS_BOTO3 rt"
    and "get_aws_connection_info rt m = (region, ec2_url, aws_connect_kwargs)"
    and "truthy region"
    and "boto3_conn rt m region ec2_url aws_connect_kwargs = Inr client"
    and "params_get m ''duration_seconds'' = PInt d"
  shows "map_of (dict_update (ec2_argument_spec rt) role_argument_spec) ''duration_seconds'' =
           Some \<lparr>arg_required = False, arg_default = PNone, arg_type = Some ''int''\<rparr>
         \<and> assume_role_calls (trace (main rt)) = [assume_role_args m]
         \<and> map_of (assume_role_args m) ''DurationSeconds'' = Some (PInt d)"
  using assms(6) main_reaching_client [OF assms(1-5)]
  by (simp add: args_DurationSeconds duration_seconds_spec)

theorem duration_is_passed_unchecked_witness:
  "assume_role_calls (trace (main (example_runtime True two_hours_task denying_client))) =
     [assume_role_args two_hours]
   \<and> map_of (assume_role_args two_hours) ''DurationSeconds'' = Some (PInt 7200)"
proof -
  let ?rt = "example_runtime True two_hours_task denying_client"
  have b: "HAS_BOTO3 ?rt"
    by (simp add: example_runtime_fields)
  have g: "get_aws_connection_info ?rt two_hours = (PStr ''us-east-1'', PNone, [])"
    unfolding two_hours_def by (rule example_connection)
  have r: "truthy (PStr ''us-east-1'')" by simp
  have c: "boto3_conn ?rt two_hours (PStr ''us-east-1'') PNone [] = Inr denying_client"
    by (simp add: example_runtime_fields)
  have d: "params_get two_hours ''duration_seconds'' = PInt 7200"
    by (simp add: two_hours_def task_module_params)
  from duration_is_passed_unchecked [OF example_modules(1) b g r c d]
  show ?thesis by blast
qed

text \<open>
  C10. Every run that ends successfully (in \<^verbatim>\<open>exit_json\<close>) reports a result with exactly
  the fields \<^verbatim>\<open>changed\<close>, \<^verbatim>\<open>sts_creds\<close> and \<^verbatim>\<open>sts_user\<close>; \<^verbatim>\<open>sts_creds\<close> is a dict with
  exactly the keys \<^verbatim>\<open>access_key\<close>, \<^verbatim>\<open>secret_key\<close>, \<^verbatim>\<open>session_token\<close> and \<^verbatim>\<open>expiration\<close>,
  and \<^verbatim>\<open>sts_user\<close> a dict with exactly the keys \<^verbatim>\<open>arn\<close> and \<^verbatim>\<open>assume_role_id\<close> (spelled
  so, not \<^verbatim>\<open>assumed_role_id\<close>).
\<close>

theorem success_result_fields:
  assumes "result (main rt) = Exit_json res"
  shows "dom (map_of res) = {''changed'', ''sts_creds'', ''sts_user''}
         \<and> (\<exists>creds user.
               map_of res ''sts_creds'' = Some (PDict creds)
               \<and> dom (map_of creds) =
                   {''access_key'', ''secret_key'', ''session_token'', ''expiration''}
               \<and> map_of res ''sts_user'' = Some (PDict user)
               \<and> dom (map_of user) = {''arn'', ''assume_role_id''})"
proof -
  from main_exit_from_policy [OF assms] obtain client m
    where "result (assume_role_policy client m) = Exit_json res" by blast
  from exit_json_shape [OF this] obtain ak sk st ex arn rid where
    res: "res = [(''changed'', PBool True),
                 (''sts_creds'', PDict [(''access_key'', ak), (''secret_key'', sk),
                                        (''session_token'', st), (''expiration'', ex)]),
                 (''sts_user'', PDict [(''arn'', arn), (''assume_role_id'', rid)])]"
    by blast
  have 1: "dom (map_of res) = {''changed'', ''sts_creds'', ''sts_user''}"
    unfolding res by auto
  have 2: "dom (map_of [(''access_key'', ak), (''secret_key'', sk),
                        (''session_token'', st), (''expiration'', ex)]) =
             {''access_key'', ''secret_key'', ''session_token'', ''expiration''}"
    by auto
  have 3: "dom (map_of [(''arn'', arn), (''assume_role_id'', rid)]) =
             {''arn'', ''assume_role_id''}"
    by auto
  have 4: "map_of res ''sts_creds'' =
             Some (PDict [(''access_key'', ak), (''secret_key'', sk),
                          (''session_token'', st), (''expiration'', ex)])"
    unfolding res by simp
  have 5: "map_of res ''sts_user'' = Some (PDict [(''arn'', arn), (''assume_role_id'', rid)])"
    unfolding res by simp
  from 1 2 3 4 5 show ?thesis by blast
qed

theorem success_result_fields_witness:
  "result (main (example_runtime True us_east_task granting_client)) = Exit_json example_result
   \<and> dom (map_of example_result) = {''changed'', ''sts_creds'', ''sts_user''}
   \<and> (\<exists>creds user.
         map_of example_result ''sts_creds'' = Some (PDict creds)
         \<and> dom (map_of creds) = {''access_key'', ''secret_key'', ''session_token'', ''expiration''}
         \<and> map_of example_result ''sts_user'' = Some (PDict user)
         \<and> dom (map_of user) = {''arn'', ''assume_role_id''})"
proof -
  let ?rt = "example_runtime True us_east_task granting_client"
  have b: "HAS_BOTO3 ?rt"
    by (simp add: example_runtime_fields)
  have g: "get_aws_connection_info ?rt required_only = (PStr ''us-east-1'', PNone, [])"
    unfolding required_only_def by (rule example_connection)
  have r: "truthy (PStr ''us-east-1'')" by simp
  have c: "boto3_conn ?rt required_only (PStr ''us-east-1'') PNone [] = Inr granting_client"
    by (simp add: example_runtime_fields)
  have h: "result (main ?rt) = Exit_json example_result"
    by (simp add: main_reaching_client [OF example_modules(2) b g r c]
        catch_ClientError_Exit_same granting_client_result)
  from success_result_fields [OF h] h show ?thesis by blast
qed

end
